theory Spec2Isabelle
  imports Main "HOL-Library.AList"
begin

section \<open>The workspace index manager\<close>

text \<open>
  A shallow embedding of \<^verbatim>\<open>DefaultIndexManager\<close> (the class of the index-manager
  source file): its four mutable fields, its three collaborators and its methods. A
  method that writes a field takes the manager and returns the manager it leaves behind,
  next to its result; a raised exception is the \<open>Inl\<close> of a sum.
\<close>

subsection \<open>Data model\<close>

text \<open>
  A \<^verbatim>\<open>URI\<close> is used by the class through \<^verbatim>\<open>toString()\<close> and \<^verbatim>\<open>equalURI\<close> only, so
  it is represented by its string form.
\<close>

type_synonym URI = string

text \<open>
  Modelled from the spec: \<^verbatim>\<open>equalURI\<close> is imported from \<^verbatim>\<open>../utils/uri-util\<close>, which is
  not among the sources. The spec asks for value equality of document identifiers,
  whatever the identity of the objects.
\<close>

definition equalURI :: "URI \<Rightarrow> URI \<Rightarrow> bool" where
  "equalURI uri1 uri2 = (uri1 = uri2)"

text \<open>
  Modelled from the spec: the enum \<^verbatim>\<open>DocumentState\<close> is declared in \<^verbatim>\<open>./documents\<close>, which
  is not among the sources. A document reaches the index manager once it is parsed; the
  manager assigns the two members \<^verbatim>\<open>IndexedContent\<close> and \<^verbatim>\<open>IndexedReferences\<close>.
\<close>

datatype DocumentState = Parsed | IndexedContent | IndexedReferences

text \<open>
  Modelled from the spec: the interfaces \<^verbatim>\<open>Reference\<close> and \<^verbatim>\<open>LangiumDocument\<close> are declared
  in \<^verbatim>\<open>../syntax-tree\<close> and \<^verbatim>\<open>./documents\<close>, which are not among the sources. A document
  has a resource identifier, a lifecycle state and the list of its references, each with
  an optional resolution error: the fields the class reads and writes. \<open>textDocument\<close> is
  the text of the document, for the extractors to read.
\<close>

record Reference =
  refText :: string
  error :: "string option"

record LangiumDocument =
  uri :: URI
  state :: DocumentState
  references :: "Reference list"
  textDocument :: string

text \<open>
  Modelled from the spec: the interface \<^verbatim>\<open>AstNodeDescription\<close> is declared in
  \<^verbatim>\<open>../syntax-tree\<close>, which is not among the sources. A symbol description has a name, a
  type tag, the identifier of the owning document and a path; the optional \<^verbatim>\<open>node\<close> is the
  live AST node the class clears, of a type \<open>'n\<close> left open.
\<close>

record 'n AstNodeDescription =
  node :: "'n option"
  type :: string
  name :: string
  documentUri :: URI
  path :: string

text \<open>
  Modelled from the spec: the interface \<^verbatim>\<open>ReferenceDescription\<close> is declared in
  \<^verbatim>\<open>./ast-descriptions\<close>, which is not among the sources. A reference description has a
  source document id and path, a target document id and path, and the flag \<^verbatim>\<open>local\<close>.
\<close>

record ReferenceDescription =
  sourceUri :: URI
  sourcePath :: string
  targetUri :: URI
  targetPath :: string
  local :: bool

text \<open>
  Modelled from the spec: the type \<^verbatim>\<open>ScopeOptions\<close> is declared in \<^verbatim>\<open>../references/scope\<close>,
  which is not among the sources. It is the configuration the scope constructor accepts;
  the class hands it on unread.
\<close>

record ScopeOptions =
  caseInsensitive :: "bool option"

text \<open>
  Modelled from the spec: the class \<^verbatim>\<open>MapScope\<close> is declared in \<^verbatim>\<open>../references/scope\<close>,
  which is not among the sources. A scope is represented by the three arguments its
  constructor receives: the elements, the outer scope and the options.
\<close>

datatype 'n Scope =
  MapScope (elements: "'n AstNodeDescription list") (outerScope: "'n Scope option")
    (options: "ScopeOptions option")

text \<open>
  The cancellation token of the language-server library, and its constant
  \<^verbatim>\<open>CancellationToken.None\<close>, which never asks for cancellation.
\<close>

record CancellationToken =
  isCancellationRequested :: bool

definition CancellationToken_None :: CancellationToken where
  "CancellationToken_None = \<lparr>isCancellationRequested = False\<rparr>"

text \<open>What an awaited extractor can raise: the cancellation condition, or a failure of its own.\<close>

datatype thrown = OperationCancelled | ExtractionFailure string

text \<open>
  The services of one language, as the manager uses them:
  \<^verbatim>\<open>references.ScopeComputation.computeExports\<close> and
  \<^verbatim>\<open>workspace.ReferenceDescriptionProvider.createDescriptions\<close>. Both are awaited; what
  comes back from the await is a value or a raised exception.
\<close>

record 'n LangiumServices =
  computeExports ::
    "LangiumDocument \<Rightarrow> CancellationToken \<Rightarrow> thrown + 'n AstNodeDescription list"
  createDescriptions ::
    "LangiumDocument \<Rightarrow> CancellationToken \<Rightarrow> thrown + ReferenceDescription list"

subsection \<open>JavaScript maps\<close>

text \<open>
  A \<^verbatim>\<open>Map\<close> iterates in insertion order, and \<^verbatim>\<open>set\<close> on a key that is present keeps
  the key's place: an association list, with the operations the class calls.
\<close>

type_synonym ('k, 'v) js_map = "('k \<times> 'v) list"

definition Map_get :: "('k, 'v) js_map \<Rightarrow> 'k \<Rightarrow> 'v option" where
  "Map_get m k = map_of m k"

primrec Map_set :: "'k \<Rightarrow> 'v \<Rightarrow> ('k, 'v) js_map \<Rightarrow> ('k, 'v) js_map" where
  "Map_set k v [] = [(k, v)]"
| "Map_set k v (p # ps) = (if fst p = k then (k, v) # ps else p # Map_set k v ps)"

primrec Map_delete :: "'k \<Rightarrow> ('k, 'v) js_map \<Rightarrow> ('k, 'v) js_map" where
  "Map_delete k [] = []"
| "Map_delete k (p # ps) = (if fst p = k then Map_delete k ps else p # Map_delete k ps)"

definition Map_values :: "('k, 'v) js_map \<Rightarrow> 'v list" where
  "Map_values m = map snd m"

definition Map_clear :: "('k, 'v) js_map \<Rightarrow> ('k, 'v) js_map" where
  "Map_clear m = []"

text \<open>\<^verbatim>\<open>Array.prototype.flat\<close>, one level deep.\<close>

definition flat :: "'a list list \<Rightarrow> 'a list" where
  "flat xss = concat xss"

text \<open>\<^verbatim>\<open>Array.prototype.some\<close>.\<close>

primrec some :: "('a \<Rightarrow> bool) \<Rightarrow> 'a list \<Rightarrow> bool" where
  "some p [] = False"
| "some p (x # xs) = (if p x then True else some p xs)"

subsection \<open>The manager\<close>

text \<open>
  The three read-only collaborators (\<^verbatim>\<open>serviceRegistry.getServices\<close>,
  \<^verbatim>\<open>langiumDocuments().all\<close>, \<^verbatim>\<open>astReflection.isSubtype\<close>) and the four mutable fields.
\<close>

record 'n DefaultIndexManager =
  getServices :: "URI \<Rightarrow> 'n LangiumServices"
  langiumDocuments_all :: "LangiumDocument list"
  isSubtype :: "string \<Rightarrow> string \<Rightarrow> bool"
  simpleIndex :: "(string, 'n AstNodeDescription list) js_map"
  referenceIndex :: "(string, ReferenceDescription list) js_map"
  globalScopeCache :: "(string, 'n Scope) js_map"
  allElementsCache :: "'n AstNodeDescription list"

text \<open>\<^verbatim>\<open>remove(uris)\<close>: the body of the loop, then the loop.\<close>

definition remove_uri :: "'n DefaultIndexManager \<Rightarrow> URI \<Rightarrow> 'n DefaultIndexManager" where
  "remove_uri this uriString =
     this\<lparr>simpleIndex := Map_delete uriString (simpleIndex this),
          referenceIndex := Map_delete uriString (referenceIndex this),
          globalScopeCache := Map_clear (globalScopeCache this),
          allElementsCache := []\<rparr>"

fun remove :: "'n DefaultIndexManager \<Rightarrow> URI list \<Rightarrow> 'n DefaultIndexManager" where
  "remove this [] = this"
| "remove this (u # us) = remove (remove_uri this u) us"

text \<open>The constructor: the collaborators are injected, the four fields start empty.\<close>

definition new_DefaultIndexManager ::
  "(URI \<Rightarrow> 'n LangiumServices) \<Rightarrow> LangiumDocument list \<Rightarrow> (string \<Rightarrow> string \<Rightarrow> bool)
     \<Rightarrow> 'n DefaultIndexManager" where
  "new_DefaultIndexManager registry docs reflection =
     \<lparr>getServices = registry, langiumDocuments_all = docs, isSubtype = reflection,
      simpleIndex = [], referenceIndex = [], globalScopeCache = [], allElementsCache = []\<rparr>"

text \<open>
  \<^verbatim>\<open>findAllReferences(targetNode, astNodePath)\<close>: the two nested \<^verbatim>\<open>forEach\<close> loops push
  onto \<^verbatim>\<open>result\<close>. \<^verbatim>\<open>getDocument\<close> is imported from \<^verbatim>\<open>../utils/ast-util\<close>, which is not
  among the sources: it is a parameter, the owner of a node.
\<close>

definition findAllReferences ::
  "('n \<Rightarrow> LangiumDocument) \<Rightarrow> 'n DefaultIndexManager \<Rightarrow> 'n \<Rightarrow> string
     \<Rightarrow> ReferenceDescription list" where
  "findAllReferences getDocument this targetNode astNodePath =
     (let targetDocUri = uri (getDocument targetNode)
      in foldl (\<lambda>result docRefs.
           foldl (\<lambda>result refDescr.
             if equalURI (targetUri refDescr) targetDocUri \<and> targetPath refDescr = astNodePath
             then result @ [refDescr] else result) result docRefs)
         [] (Map_values (referenceIndex this)))"

text \<open>
  \<^verbatim>\<open>globalScope(nodeType = '', scopeOptions?)\<close>. A missing first argument takes the
  default \<^verbatim>\<open>''\<close>. A cached scope is an object, hence truthy: the test \<^verbatim>\<open>if (cached)\<close>
  is the test that the key is present. The third component of the result lists the calls
  of \<^verbatim>\<open>astReflection.isSubtype\<close> the call made, with their arguments: \<^verbatim>\<open>filter\<close> calls
  its predicate once for each element.
\<close>

definition globalScope ::
  "'n DefaultIndexManager \<Rightarrow> string option \<Rightarrow> ScopeOptions option
     \<Rightarrow> 'n Scope \<times> 'n DefaultIndexManager \<times> (string \<times> string) list" where
  "globalScope this nodeTypeArg scopeOptions =
     (let nodeType = (case nodeTypeArg of None \<Rightarrow> [] | Some t \<Rightarrow> t);
          this1 = (if length (allElementsCache this) = 0
                   then this\<lparr>allElementsCache := flat (Map_values (simpleIndex this))\<rparr>
                   else this)
      in case Map_get (globalScopeCache this1) nodeType of
           Some cached \<Rightarrow> (cached, this1, [])
         | None \<Rightarrow>
             (let elems = filter (\<lambda>e. isSubtype this1 (type e) nodeType) (allElementsCache this1);
                  scope = MapScope elems None scopeOptions
              in (scope,
                  this1\<lparr>globalScopeCache := Map_set nodeType scope (globalScopeCache this1)\<rparr>,
                  map (\<lambda>e. (type e, nodeType)) (allElementsCache this1))))"

text \<open>
  \<^verbatim>\<open>updateContent(document, cancelToken = CancellationToken.None)\<close> is an \<^verbatim>\<open>async\<close>
  method with one \<^verbatim>\<open>await\<close>, on the extractor. \<open>updateContent_begin\<close> is what runs
  before the await (the two caches are cleared), \<open>updateContent_commit\<close> what runs after
  it when the extractor returned \<^verbatim>\<open>exports\<close>. Scheduling is cooperative: while the method
  is suspended at the await, other calls on the manager can run to their end, and
  \<open>during\<close> is what they do to the manager.
\<close>

definition updateContent_begin :: "'n DefaultIndexManager \<Rightarrow> 'n DefaultIndexManager" where
  "updateContent_begin this =
     this\<lparr>globalScopeCache := Map_clear (globalScopeCache this), allElementsCache := []\<rparr>"

primrec clear_nodes :: "'n AstNodeDescription list \<Rightarrow> 'n AstNodeDescription list" where
  "clear_nodes [] = []"
| "clear_nodes (d # ds) = d\<lparr>node := None\<rparr> # clear_nodes ds"

definition updateContent_commit ::
  "'n DefaultIndexManager \<Rightarrow> LangiumDocument \<Rightarrow> 'n AstNodeDescription list
     \<Rightarrow> 'n DefaultIndexManager \<times> LangiumDocument" where
  "updateContent_commit this document exports =
     (this\<lparr>simpleIndex := Map_set (uri document) (clear_nodes exports) (simpleIndex this)\<rparr>,
      document\<lparr>state := IndexedContent\<rparr>)"

definition token_or_default :: "CancellationToken option \<Rightarrow> CancellationToken" where
  "token_or_default cancelToken =
     (case cancelToken of None \<Rightarrow> CancellationToken_None | Some t \<Rightarrow> t)"

definition updateContent_interleaved ::
  "('n DefaultIndexManager \<Rightarrow> 'n DefaultIndexManager) \<Rightarrow> 'n DefaultIndexManager
     \<Rightarrow> LangiumDocument \<Rightarrow> CancellationToken option
     \<Rightarrow> (thrown + unit) \<times> 'n DefaultIndexManager \<times> LangiumDocument" where
  "updateContent_interleaved during this document cancelToken =
     (let this1 = updateContent_begin this;
          services = getServices this1 (uri document);
          awaited = computeExports services document (token_or_default cancelToken);
          this2 = during this1
      in case awaited of
           Inl e \<Rightarrow> (Inl e, this2, document)
         | Inr exports \<Rightarrow>
             (case updateContent_commit this2 document exports of
                (this3, document3) \<Rightarrow> (Inr (), this3, document3)))"

text \<open>The call run to its end with nothing else running at the await.\<close>

definition updateContent ::
  "'n DefaultIndexManager \<Rightarrow> LangiumDocument \<Rightarrow> CancellationToken option
     \<Rightarrow> (thrown + unit) \<times> 'n DefaultIndexManager \<times> LangiumDocument" where
  "updateContent this document cancelToken =
     updateContent_interleaved (\<lambda>this1. this1) this document cancelToken"

text \<open>
  \<^verbatim>\<open>updateReferences(document, cancelToken = CancellationToken.None)\<close>. The method writes
  nothing before its await, so what runs during the await is what ran before the call.
\<close>

definition updateReferences ::
  "'n DefaultIndexManager \<Rightarrow> LangiumDocument \<Rightarrow> CancellationToken option
     \<Rightarrow> (thrown + unit) \<times> 'n DefaultIndexManager \<times> LangiumDocument" where
  "updateReferences this document cancelToken =
     (let services = getServices this (uri document)
      in case createDescriptions services document (token_or_default cancelToken) of
           Inl e \<Rightarrow> (Inl e, this, document)
         | Inr indexData \<Rightarrow>
             (Inr (),
              this\<lparr>referenceIndex := Map_set (uri document) indexData (referenceIndex this)\<rparr>,
              document\<lparr>state := IndexedReferences\<rparr>))"

text \<open>
  \<^verbatim>\<open>isAffected(document, changed)\<close>. An array is truthy also when it is empty: the test
  \<^verbatim>\<open>if (references)\<close> is the test that the document has an entry.
\<close>

definition isAffected :: "'n DefaultIndexManager \<Rightarrow> LangiumDocument \<Rightarrow> URI \<Rightarrow> bool" where
  "isAffected this document changed =
     (let changedUriString = changed;
          documentUri = uri document
      in if some (\<lambda>e. error e \<noteq> None) (references document) then True
         else case Map_get (referenceIndex this) documentUri of
                Some refs \<Rightarrow>
                  some (\<lambda>e. equalURI (targetUri e) changedUriString) (filter (\<lambda>e. \<not> local e) refs)
              | None \<Rightarrow> False)"

text \<open>The \<^verbatim>\<open>for\<close> loop of \<^verbatim>\<open>getAffectedDocuments\<close>, which returns at the first hit.\<close>

primrec isAffected_loop :: "'n DefaultIndexManager \<Rightarrow> LangiumDocument \<Rightarrow> URI list \<Rightarrow> bool" where
  "isAffected_loop this e [] = False"
| "isAffected_loop this e (u # us) = (if isAffected this e u then True else isAffected_loop this e us)"

definition getAffectedDocuments ::
  "'n DefaultIndexManager \<Rightarrow> URI list \<Rightarrow> LangiumDocument list" where
  "getAffectedDocuments this uris =
     filter (\<lambda>e. if some (\<lambda>u. equalURI (uri e) u) uris then False
                 else isAffected_loop this e uris)
       (langiumDocuments_all this)"

subsection \<open>Sequences of calls\<close>

text \<open>
  A call on the manager, with its arguments, and the manager the call leaves behind when
  it runs to its end. \<^verbatim>\<open>getAffectedDocuments\<close> and \<^verbatim>\<open>findAllReferences\<close> write no field.
\<close>

datatype 'n operation =
    Remove "URI list"
  | UpdateContent LangiumDocument "CancellationToken option"
  | UpdateReferences LangiumDocument "CancellationToken option"
  | GetAffectedDocuments "URI list"
  | GlobalScope "string option" "ScopeOptions option"
  | FindAllReferences "'n \<Rightarrow> LangiumDocument" 'n string

fun run :: "'n DefaultIndexManager \<Rightarrow> 'n operation \<Rightarrow> 'n DefaultIndexManager" where
  "run this (Remove uris) = remove this uris"
| "run this (UpdateContent document cancelToken) =
     fst (snd (updateContent this document cancelToken))"
| "run this (UpdateReferences document cancelToken) =
     fst (snd (updateReferences this document cancelToken))"
| "run this (GetAffectedDocuments uris) = this"
| "run this (GlobalScope nodeType scopeOptions) = fst (snd (globalScope this nodeType scopeOptions))"
| "run this (FindAllReferences getDocument targetNode astNodePath) = this"

definition run_all :: "'n DefaultIndexManager \<Rightarrow> 'n operation list \<Rightarrow> 'n DefaultIndexManager" where
  "run_all this ops = foldl run this ops"

text \<open>
  The calls that execute the two statements clearing the caches: \<^verbatim>\<open>updateContent\<close>, which
  executes them first thing, whatever the extractor does later, and \<^verbatim>\<open>remove\<close> when its
  loop runs at least once.
\<close>

fun clears_caches :: "'n operation \<Rightarrow> bool" where
  "clears_caches (Remove uris) = (uris \<noteq> [])"
| "clears_caches (UpdateContent document cancelToken) = True"
| "clears_caches (UpdateReferences document cancelToken) = False"
| "clears_caches (GetAffectedDocuments uris) = False"
| "clears_caches (GlobalScope nodeType scopeOptions) = False"
| "clears_caches (FindAllReferences getDocument targetNode astNodePath) = False"

subsection \<open>The scenario of the specification\<close>

text \<open>
  Document A exports the symbol \<open>x\<close> at a path; document B holds a non-local reference
  to it; document C has a reference that failed to resolve. The reflection declares no
  subtype: a type is a subtype of itself only, as a generated reflection answers for a
  grammar without inheritance. Nodes are numbers here.
\<close>

definition uriA :: URI where "uriA = ''file:///a.calc''"
definition uriB :: URI where "uriB = ''file:///b.calc''"
definition uriC :: URI where "uriC = ''file:///c.calc''"

definition docA :: LangiumDocument where
  "docA = \<lparr>uri = uriA, state = Parsed, references = [], textDocument = ''def x: 1;''\<rparr>"

definition docB :: LangiumDocument where
  "docB = \<lparr>uri = uriB, state = Parsed,
            references = [\<lparr>refText = ''x'', error = None\<rparr>], textDocument = ''x;''\<rparr>"

definition docC :: LangiumDocument where
  "docC = \<lparr>uri = uriC, state = Parsed,
            references = [\<lparr>refText = ''y'', error = Some ''Could not resolve reference''\<rparr>],
            textDocument = ''y;''\<rparr>"

definition symX :: "nat AstNodeDescription" where
  "symX = \<lparr>node = Some 1, type = ''Definition'', name = ''x'', documentUri = uriA,
            path = ''/statements@0''\<rparr>"

definition symX2 :: "nat AstNodeDescription" where
  "symX2 = \<lparr>node = Some 2, type = ''Definition'', name = ''x2'', documentUri = uriA,
             path = ''/statements@0''\<rparr>"

definition refBA :: ReferenceDescription where
  "refBA = \<lparr>sourceUri = uriB, sourcePath = ''/statements@0'', targetUri = uriA,
             targetPath = ''/statements@0'', local = False\<rparr>"

text \<open>
  The extractors read the text of the document they are given, and raise the cancellation
  condition when the token asks for it.
\<close>

definition scenario_services :: "nat LangiumServices" where
  "scenario_services =
     \<lparr>computeExports = (\<lambda>d t. if isCancellationRequested t then Inl OperationCancelled
                              else if textDocument d = ''def x: 1;'' then Inr [symX]
                              else if textDocument d = ''def x2: 1;'' then Inr [symX2]
                              else Inr []),
      createDescriptions = (\<lambda>d t. if isCancellationRequested t then Inl OperationCancelled
                              else if textDocument d = ''x;'' then Inr [refBA] else Inr [])\<rparr>"

definition scenario_isSubtype :: "string \<Rightarrow> string \<Rightarrow> bool" where
  "scenario_isSubtype subtype supertype = (subtype = supertype)"

definition manager0 :: "nat DefaultIndexManager" where
  "manager0 = new_DefaultIndexManager (\<lambda>u. scenario_services) [docA, docB, docC] scenario_isSubtype"

text \<open>The manager after \<^verbatim>\<open>updateContent(A)\<close>, \<^verbatim>\<open>updateContent(B)\<close>, \<^verbatim>\<open>updateReferences(B)\<close>.\<close>

definition manager1 :: "nat DefaultIndexManager" where
  "manager1 =
     fst (snd (updateReferences
       (fst (snd (updateContent (fst (snd (updateContent manager0 docA None))) docB None)))
       docB None))"

text \<open>The manager after one more call, \<^verbatim>\<open>globalScope('Definition')\<close>: its caches are filled.\<close>

definition manager2 :: "nat DefaultIndexManager" where
  "manager2 = fst (snd (globalScope manager1 (Some ''Definition'') None))"

text \<open>
  The documents after an edit: in A the symbol \<open>x\<close> is renamed to \<open>x2\<close>, and B loses its
  reference.
\<close>

definition docA_edited :: LangiumDocument where
  "docA_edited = docA\<lparr>textDocument := ''def x2: 1;''\<rparr>"

definition docB_edited :: LangiumDocument where
  "docB_edited = docB\<lparr>references := [], textDocument := []\<rparr>"

text \<open>
  \<^verbatim>\<open>updateContent\<close> of the edited A on that manager, with one call
  \<^verbatim>\<open>globalScope('Definition')\<close> running while the extractor is awaited.
\<close>

definition manager3 :: "nat DefaultIndexManager" where
  "manager3 =
     fst (snd (updateContent_interleaved
       (\<lambda>this1. fst (snd (globalScope this1 (Some ''Definition'') None)))
       manager2 docA_edited None))"

definition cancelled :: CancellationToken where
  "cancelled = \<lparr>isCancellationRequested = True\<rparr>"

definition caseInsensitive_options :: ScopeOptions where
  "caseInsensitive_options = \<lparr>caseInsensitive = Some True\<rparr>"

text \<open>
  A sequence of calls none of which clears the caches: a scope for every type, a
  re-index of the references of the edited B, two queries, and a removal of no uri.
\<close>

definition quiet_calls :: "nat operation list" where
  "quiet_calls =
     [GlobalScope None None, UpdateReferences docB_edited None, GetAffectedDocuments [uriA],
      FindAllReferences (\<lambda>n. docA) 1 ''/statements@0'', Remove []]"

subsection \<open>The affected documents, in the words of the specification\<close>

text \<open>
  A document is affected by the changed ids when its id is not among them and either
  (a) it carries a recorded reference-resolution error, or (b) its entry of the reference
  index holds a non-local reference whose target id is among them.
\<close>

definition affected_as_specified ::
  "'n DefaultIndexManager \<Rightarrow> URI list \<Rightarrow> LangiumDocument \<Rightarrow> bool" where
  "affected_as_specified this changedIds d =
     (uri d \<notin> set changedIds \<and>
      ((\<exists>r\<in>set (references d). error r \<noteq> None) \<or>
       (case Map_get (referenceIndex this) (uri d) of
          None \<Rightarrow> False
        | Some refs \<Rightarrow> \<exists>r\<in>set refs. \<not> local r \<and> targetUri r \<in> set changedIds)))"

subsection \<open>Coherence of the two caches\<close>

text \<open>
  The flattened list is empty or is the flattened symbol index, and every cached scope
  holds the descriptions of the symbol index that the subtype predicate accepts for its
  key.
\<close>

definition cache_coherent :: "'n DefaultIndexManager \<Rightarrow> bool" where
  "cache_coherent this \<longleftrightarrow>
     (allElementsCache this = [] \<or> allElementsCache this = flat (Map_values (simpleIndex this))) \<and>
     (\<forall>(t, scope)\<in>set (globalScopeCache this).
        elements scope = filter (\<lambda>e. isSubtype this (type e) t) (flat (Map_values (simpleIndex this))) \<and>
        outerScope scope = None)"

section \<open>Properties\<close>

subsection \<open>JavaScript maps and arrays\<close>

lemma some_iff: "some p xs \<longleftrightarrow> (\<exists>x\<in>set xs. p x)"
  by (induction xs) auto

lemma Map_get_set: "Map_get (Map_set k v m) k' = (if k' = k then Some v else Map_get m k')"
  by (induction m) (auto simp: Map_get_def)

lemma Map_get_delete: "Map_get (Map_delete k m) k' = (if k' = k then None else Map_get m k')"
  by (induction m) (auto simp: Map_get_def)

lemma keys_Map_set:
  "map fst (Map_set k v m) = (if k \<in> set (map fst m) then map fst m else map fst m @ [k])"
  by (induction m) auto

lemma distinct_Map_set: "distinct (map fst m) \<Longrightarrow> distinct (map fst (Map_set k v m))"
  by (simp add: keys_Map_set)

lemma keys_Map_delete: "map fst (Map_delete k m) = removeAll k (map fst m)"
  by (induction m) auto

lemma distinct_Map_delete: "distinct (map fst m) \<Longrightarrow> distinct (map fst (Map_delete k m))"
  by (simp add: keys_Map_delete distinct_removeAll)

lemma Map_delete_absent: "k \<notin> fst ` set m \<Longrightarrow> Map_delete k m = m"
  by (induction m) auto

lemma Map_set_others:
  "filter (\<lambda>p. fst p \<noteq> k) (Map_set k v m) = filter (\<lambda>p. fst p \<noteq> k) m"
  by (induction m) auto

lemma clear_nodes_map: "clear_nodes ds = map (\<lambda>d. d\<lparr>node := None\<rparr>) ds"
  by (induction ds) auto

lemma set_Map_set: "set (Map_set k v m) \<subseteq> insert (k, v) (set m)"
  by (induction m) auto

lemma Map_get_in: "Map_get m k = Some v \<Longrightarrow> (k, v) \<in> set m"
  by (simp add: Map_get_def map_of_SomeD)

subsection \<open>The scenario, evaluated\<close>

lemmas scenario_defs = uriA_def uriB_def uriC_def docA_def docB_def docC_def symX_def symX2_def
  refBA_def scenario_services_def scenario_isSubtype_def manager0_def
  new_DefaultIndexManager_def docA_edited_def docB_edited_def

lemmas operation_defs = updateContent_def updateContent_interleaved_def updateContent_begin_def
  updateContent_commit_def
  updateReferences_def token_or_default_def CancellationToken_None_def Map_clear_def
  Map_get_def Map_values_def flat_def globalScope_def Let_def

lemma manager1_fields:
  "getServices manager1 = (\<lambda>u. scenario_services)"
  "langiumDocuments_all manager1 = [docA, docB, docC]"
  "isSubtype manager1 = scenario_isSubtype"
  "simpleIndex manager1 = [(uriA, [symX\<lparr>node := None\<rparr>]), (uriB, [])]"
  "referenceIndex manager1 = [(uriB, [refBA])]"
  "globalScopeCache manager1 = []"
  "allElementsCache manager1 = []"
  by (simp_all add: manager1_def scenario_defs operation_defs)

lemma manager2_fields:
  "getServices manager2 = (\<lambda>u. scenario_services)"
  "langiumDocuments_all manager2 = [docA, docB, docC]"
  "isSubtype manager2 = scenario_isSubtype"
  "simpleIndex manager2 = [(uriA, [symX\<lparr>node := None\<rparr>]), (uriB, [])]"
  "referenceIndex manager2 = [(uriB, [refBA])]"
  "globalScopeCache manager2 = [(''Definition'', MapScope [symX\<lparr>node := None\<rparr>] None None)]"
  "allElementsCache manager2 = [symX\<lparr>node := None\<rparr>]"
  by (simp_all add: manager2_def manager1_fields operation_defs scenario_isSubtype_def symX_def)

subsection \<open>Removal\<close>

lemma remove_caches:
  "globalScopeCache (remove this us) = (if us = [] then globalScopeCache this else [])"
  "allElementsCache (remove this us) = (if us = [] then allElementsCache this else [])"
  by (induction us arbitrary: this) (auto simp: remove_uri_def Map_clear_def)

lemma remove_absent:
  "\<forall>u\<in>set us. Map_get (simpleIndex this) u = None \<and> Map_get (referenceIndex this) u = None \<Longrightarrow>
   simpleIndex (remove this us) = simpleIndex this \<and>
   referenceIndex (remove this us) = referenceIndex this"
  by (induction us arbitrary: this)
    (auto simp: remove_uri_def Map_get_def map_of_eq_None_iff Map_delete_absent)

lemma remove_deletes:
  "u \<in> set us \<Longrightarrow>
   Map_get (simpleIndex (remove this us)) u = None \<and>
   Map_get (referenceIndex (remove this us)) u = None"
proof (induction us arbitrary: this)
  case Nil
  then show ?case by simp
next
  case (Cons v us)
  have kept: "Map_get (simpleIndex (remove this' us)) u = None \<and>
      Map_get (referenceIndex (remove this' us)) u = None"
    if "Map_get (simpleIndex this') u = None" "Map_get (referenceIndex this') u = None"
    for this'
    using that by (induction us arbitrary: this') (simp_all add: remove_uri_def Map_get_delete)
  show ?case
  proof (cases "u = v")
    case True
    then show ?thesis using kept [of "remove_uri this v"]
      by (simp add: remove_uri_def Map_get_delete)
  next
    case False
    then show ?thesis using Cons by simp
  qed
qed

lemma remove_keeps_keys_distinct:
  "distinct (map fst (simpleIndex this)) \<Longrightarrow> distinct (map fst (referenceIndex this)) \<Longrightarrow>
   distinct (map fst (simpleIndex (remove this us))) \<and>
   distinct (map fst (referenceIndex (remove this us)))"
  by (induction us arbitrary: this) (simp_all add: remove_uri_def distinct_Map_delete)

text \<open>
  C10. \<^verbatim>\<open>remove\<close> with an empty list of uris returns the manager as it was: nothing is
  deleted and neither cache is cleared. With a non-empty list both the global scope cache
  and the flattened list are empty afterwards, and this also when no given uri has an
  entry in either index, in which case the two indices are what they were.
\<close>

theorem remove_empty_noop_nonempty_invalidates:
  "remove this [] = this \<and>
   (uris \<noteq> [] \<longrightarrow>
      globalScopeCache (remove this uris) = [] \<and> allElementsCache (remove this uris) = [] \<and>
      ((\<forall>u\<in>set uris. Map_get (simpleIndex this) u = None \<and>
                       Map_get (referenceIndex this) u = None) \<longrightarrow>
         simpleIndex (remove this uris) = simpleIndex this \<and>
         referenceIndex (remove this uris) = referenceIndex this))"
  using remove_absent [of uris this] by (simp add: remove_caches)

theorem remove_empty_noop_nonempty_invalidates_witness:
  "remove manager2 [] = manager2 \<and> [uriC] \<noteq> [] \<and>
   globalScopeCache manager2 \<noteq> [] \<and> allElementsCache manager2 \<noteq> [] \<and>
   Map_get (simpleIndex manager2) uriC = None \<and> Map_get (referenceIndex manager2) uriC = None \<and>
   globalScopeCache (remove manager2 [uriC]) = [] \<and> allElementsCache (remove manager2 [uriC]) = [] \<and>
   simpleIndex (remove manager2 [uriC]) = simpleIndex manager2 \<and>
   referenceIndex (remove manager2 [uriC]) = referenceIndex manager2"
proof -
  have absent: "\<forall>u\<in>set [uriC]. Map_get (simpleIndex manager2) u = None \<and>
      Map_get (referenceIndex manager2) u = None"
    by (simp add: manager2_fields Map_get_def uriA_def uriB_def uriC_def)
  have filled: "globalScopeCache manager2 \<noteq> [] \<and> allElementsCache manager2 \<noteq> []"
    by (simp add: manager2_fields)
  from remove_empty_noop_nonempty_invalidates [of manager2 "[uriC]"] absent filled
  show ?thesis by simp
qed

subsection \<open>The two update operations\<close>

lemma updateContent_interleaved_raised:
  assumes "computeExports (getServices this (uri document)) document
      (token_or_default cancelToken) = Inl e"
  shows "updateContent_interleaved during this document cancelToken =
    (Inl e, during (this\<lparr>globalScopeCache := [], allElementsCache := []\<rparr>), document)"
  using assms
  by (simp add: updateContent_interleaved_def updateContent_begin_def Map_clear_def Let_def)

lemma updateContent_interleaved_returned:
  assumes "computeExports (getServices this (uri document)) document
      (token_or_default cancelToken) = Inr exports"
  shows "updateContent_interleaved during this document cancelToken =
    (Inr (),
     (during (this\<lparr>globalScopeCache := [], allElementsCache := []\<rparr>))
       \<lparr>simpleIndex := Map_set (uri document) (clear_nodes exports)
          (simpleIndex (during (this\<lparr>globalScopeCache := [], allElementsCache := []\<rparr>)))\<rparr>,
     document\<lparr>state := IndexedContent\<rparr>)"
  using assms
  by (simp add: updateContent_interleaved_def updateContent_begin_def updateContent_commit_def
      Map_clear_def Let_def)

lemma updateContent_raised:
  assumes "computeExports (getServices this (uri document)) document
      (token_or_default cancelToken) = Inl e"
  shows "updateContent this document cancelToken =
    (Inl e, this\<lparr>globalScopeCache := [], allElementsCache := []\<rparr>, document)"
  using assms by (simp add: updateContent_def updateContent_interleaved_raised)

lemma updateContent_returned:
  assumes "computeExports (getServices this (uri document)) document
      (token_or_default cancelToken) = Inr exports"
  shows "updateContent this document cancelToken =
    (Inr (),
     this\<lparr>globalScopeCache := [], allElementsCache := [],
          simpleIndex := Map_set (uri document) (clear_nodes exports) (simpleIndex this)\<rparr>,
     document\<lparr>state := IndexedContent\<rparr>)"
  using assms by (simp add: updateContent_def updateContent_interleaved_returned)

lemma updateReferences_raised:
  assumes "createDescriptions (getServices this (uri document)) document (token_or_default cancelToken) = Inl e"
  shows "updateReferences this document cancelToken = (Inl e, this, document)"
  using assms by (simp add: updateReferences_def)

lemma updateReferences_returned:
  assumes "createDescriptions (getServices this (uri document)) document (token_or_default cancelToken) = Inr indexData"
  shows "updateReferences this document cancelToken =
    (Inr (),
     this\<lparr>referenceIndex := Map_set (uri document) indexData (referenceIndex this)\<rparr>,
     document\<lparr>state := IndexedReferences\<rparr>)"
  using assms by (simp add: updateReferences_def)

text \<open>
  C2. When the extractor awaited by \<^verbatim>\<open>updateContent\<close> raises \<open>e\<close> (the cancellation
  condition or a failure of its own), the call raises the same \<open>e\<close>, the symbol index and
  the reference index are what they were, so the document's prior entry stands, and the
  document, its lifecycle state included, is unchanged. When the extractor awaited by
  \<^verbatim>\<open>updateReferences\<close> raises \<open>e\<close>, the call raises \<open>e\<close> and leaves the whole manager and
  the document as they were.
\<close>

theorem extractor_failure_commits_nothing:
  "(computeExports (getServices this (uri document)) document (token_or_default cancelToken) = Inl e \<longrightarrow>
      fst (updateContent this document cancelToken) = Inl e \<and>
      simpleIndex (fst (snd (updateContent this document cancelToken))) = simpleIndex this \<and>
      referenceIndex (fst (snd (updateContent this document cancelToken))) = referenceIndex this \<and>
      snd (snd (updateContent this document cancelToken)) = document) \<and>
   (createDescriptions (getServices this (uri document)) document (token_or_default cancelToken) = Inl e \<longrightarrow>
      updateReferences this document cancelToken = (Inl e, this, document))"
  by (simp add: updateContent_raised updateReferences_raised)

theorem extractor_failure_commits_nothing_witness:
  "computeExports (getServices manager1 (uri docA)) docA (token_or_default (Some cancelled)) = Inl OperationCancelled \<and>
   fst (updateContent manager1 docA (Some cancelled)) = Inl OperationCancelled \<and>
   Map_get (simpleIndex (fst (snd (updateContent manager1 docA (Some cancelled))))) uriA = Some [symX\<lparr>node := None\<rparr>] \<and>
   simpleIndex (fst (snd (updateContent manager1 docA (Some cancelled)))) = simpleIndex manager1 \<and>
   referenceIndex (fst (snd (updateContent manager1 docA (Some cancelled)))) = referenceIndex manager1 \<and>
   snd (snd (updateContent manager1 docA (Some cancelled))) = docA \<and>
   createDescriptions (getServices manager1 (uri docB)) docB (token_or_default (Some cancelled)) = Inl OperationCancelled \<and>
   updateReferences manager1 docB (Some cancelled) = (Inl OperationCancelled, manager1, docB)"
proof -
  have a: "computeExports (getServices manager1 (uri docA)) docA (token_or_default (Some cancelled)) = Inl OperationCancelled"
    by (simp add: manager1_fields scenario_services_def token_or_default_def cancelled_def)
  have b: "createDescriptions (getServices manager1 (uri docB)) docB (token_or_default (Some cancelled)) = Inl OperationCancelled"
    by (simp add: manager1_fields scenario_services_def token_or_default_def cancelled_def)
  have c: "Map_get (simpleIndex manager1) uriA = Some [symX\<lparr>node := None\<rparr>]"
    by (simp add: manager1_fields Map_get_def)
  from extractor_failure_commits_nothing [of manager1 docA "Some cancelled" OperationCancelled]
    extractor_failure_commits_nothing [of manager1 docB "Some cancelled" OperationCancelled] a b c
  show ?thesis by simp
qed

text \<open>
  C8. When the extractor returns \<^verbatim>\<open>exports\<close>, \<^verbatim>\<open>updateContent\<close> completes, the list stored
  under the document's id is \<^verbatim>\<open>exports\<close> with the node of every description removed, no
  description of the stored list has a node, and the document's state is
  \<^verbatim>\<open>IndexedContent\<close>.
\<close>

theorem updateContent_success_stores_stripped:
  assumes "computeExports (getServices this (uri document)) document (token_or_default cancelToken) = Inr exports"
    and "updateContent this document cancelToken = (r, this', document')"
  shows "r = Inr () \<and>
    Map_get (simpleIndex this') (uri document) = Some (map (\<lambda>d. d\<lparr>node := None\<rparr>) exports) \<and>
    (\<forall>stored. Map_get (simpleIndex this') (uri document) = Some stored \<longrightarrow> (\<forall>d\<in>set stored. node d = None)) \<and>
    document' = document\<lparr>state := IndexedContent\<rparr> \<and> state document' = IndexedContent"
  using assms by (auto simp: updateContent_returned Map_get_set clear_nodes_map)

theorem updateContent_success_stores_stripped_witness:
  "computeExports (getServices manager0 (uri docA)) docA (token_or_default None) = Inr [symX] \<and>
   node symX = Some 1 \<and> state docA = Parsed \<and>
   fst (updateContent manager0 docA None) = Inr () \<and>
   Map_get (simpleIndex (fst (snd (updateContent manager0 docA None)))) uriA = Some [symX\<lparr>node := None\<rparr>] \<and>
   node (symX\<lparr>node := None\<rparr>) = None \<and>
   state (snd (snd (updateContent manager0 docA None))) = IndexedContent"
proof -
  have a: "computeExports (getServices manager0 (uri docA)) docA (token_or_default None) = Inr [symX]"
    by (simp add: manager0_def new_DefaultIndexManager_def scenario_services_def
        token_or_default_def CancellationToken_None_def docA_def)
  have b: "updateContent manager0 docA None =
      (fst (updateContent manager0 docA None), fst (snd (updateContent manager0 docA None)),
       snd (snd (updateContent manager0 docA None)))"
    by simp
  have c: "uri docA = uriA \<and> node symX = Some 1 \<and> state docA = Parsed"
    by (simp add: docA_def symX_def)
  from updateContent_success_stores_stripped [OF a b] a c show ?thesis by simp
qed

text \<open>
  C9. A successful \<^verbatim>\<open>updateContent\<close> of a document leaves, for every other id \<open>b\<close>, the
  entries of \<open>b\<close> in both indices as they were (all other entries, in their order), does
  not touch the reference index, and puts the new list in the place of the document's
  entry: the entry is the new list alone. Keys stay distinct: one list for each id. The
  same holds for \<^verbatim>\<open>updateReferences\<close> with the two indices exchanged.
\<close>

theorem update_replaces_own_entry_only:
  assumes "b \<noteq> uri document"
  shows
  "(computeExports (getServices this (uri document)) document (token_or_default cancelToken) = Inr exports \<longrightarrow>
      Map_get (simpleIndex (fst (snd (updateContent this document cancelToken)))) b = Map_get (simpleIndex this) b \<and>
      Map_get (referenceIndex (fst (snd (updateContent this document cancelToken)))) b = Map_get (referenceIndex this) b \<and>
      filter (\<lambda>p. fst p \<noteq> uri document) (simpleIndex (fst (snd (updateContent this document cancelToken)))) =
        filter (\<lambda>p. fst p \<noteq> uri document) (simpleIndex this) \<and>
      referenceIndex (fst (snd (updateContent this document cancelToken))) = referenceIndex this \<and>
      Map_get (simpleIndex (fst (snd (updateContent this document cancelToken)))) (uri document) = Some (clear_nodes exports) \<and>
      (distinct (map fst (simpleIndex this)) \<longrightarrow>
         distinct (map fst (simpleIndex (fst (snd (updateContent this document cancelToken))))))) \<and>
   (createDescriptions (getServices this (uri document)) document (token_or_default cancelToken) = Inr indexData \<longrightarrow>
      Map_get (referenceIndex (fst (snd (updateReferences this document cancelToken)))) b = Map_get (referenceIndex this) b \<and>
      Map_get (simpleIndex (fst (snd (updateReferences this document cancelToken)))) b = Map_get (simpleIndex this) b \<and>
      filter (\<lambda>p. fst p \<noteq> uri document) (referenceIndex (fst (snd (updateReferences this document cancelToken)))) =
        filter (\<lambda>p. fst p \<noteq> uri document) (referenceIndex this) \<and>
      simpleIndex (fst (snd (updateReferences this document cancelToken))) = simpleIndex this \<and>
      Map_get (referenceIndex (fst (snd (updateReferences this document cancelToken)))) (uri document) = Some indexData \<and>
      (distinct (map fst (referenceIndex this)) \<longrightarrow>
         distinct (map fst (referenceIndex (fst (snd (updateReferences this document cancelToken)))))))"
  using assms
  by (simp add: updateContent_returned updateReferences_returned Map_get_set Map_set_others distinct_Map_set)

theorem update_replaces_own_entry_only_witness:
  "uriB \<noteq> uri docA_edited \<and> uriA \<noteq> uri docB_edited \<and>
   Map_get (simpleIndex manager2) uriA = Some [symX\<lparr>node := None\<rparr>] \<and>
   Map_get (simpleIndex manager2) uriB = Some [] \<and>
   Map_get (referenceIndex manager2) uriB = Some [refBA] \<and>
   Map_get (referenceIndex manager2) uriA = None \<and>
   distinct (map fst (simpleIndex manager2)) \<and>
   distinct (map fst (referenceIndex manager2)) \<and>
   Map_get (simpleIndex (fst (snd (updateContent manager2 docA_edited None)))) uriA =
     Some [symX2\<lparr>node := None\<rparr>] \<and>
   Map_get (simpleIndex (fst (snd (updateContent manager2 docA_edited None)))) uriB = Some [] \<and>
   referenceIndex (fst (snd (updateContent manager2 docA_edited None))) = referenceIndex manager2 \<and>
   distinct (map fst (simpleIndex (fst (snd (updateContent manager2 docA_edited None))))) \<and>
   Map_get (referenceIndex (fst (snd (updateReferences manager2 docB_edited None)))) uriB = Some [] \<and>
   Map_get (referenceIndex (fst (snd (updateReferences manager2 docB_edited None)))) uriA = None \<and>
   simpleIndex (fst (snd (updateReferences manager2 docB_edited None))) = simpleIndex manager2 \<and>
   distinct (map fst (referenceIndex (fst (snd (updateReferences manager2 docB_edited None)))))"
proof -
  have ne: "uriB \<noteq> uri docA_edited" "uriA \<noteq> uri docB_edited"
    by (simp_all add: uriA_def uriB_def docA_def docB_def docA_edited_def docB_edited_def)
  have a: "computeExports (getServices manager2 (uri docA_edited)) docA_edited
      (token_or_default None) = Inr [symX2]"
    by (simp add: manager2_fields scenario_services_def docA_def docA_edited_def
        token_or_default_def CancellationToken_None_def)
  have b: "createDescriptions (getServices manager2 (uri docB_edited)) docB_edited
      (token_or_default None) = Inr []"
    by (simp add: manager2_fields scenario_services_def docB_def docB_edited_def
        token_or_default_def CancellationToken_None_def)
  have before:
    "Map_get (simpleIndex manager2) uriA = Some [symX\<lparr>node := None\<rparr>]"
    "Map_get (simpleIndex manager2) uriB = Some []"
    "Map_get (referenceIndex manager2) uriB = Some [refBA]"
    "Map_get (referenceIndex manager2) uriA = None"
    "distinct (map fst (simpleIndex manager2))"
    "distinct (map fst (referenceIndex manager2))"
    by (simp_all add: manager2_fields Map_get_def uriA_def uriB_def)
  have u: "uri docA_edited = uriA" "uri docB_edited = uriB"
    by (simp_all add: docA_def docB_def docA_edited_def docB_edited_def)
  from update_replaces_own_entry_only [OF ne(1), of manager2 None "[symX2]" "[]"]
    update_replaces_own_entry_only [OF ne(2), of manager2 None "[]" "[]"]
    a b before ne u
  show ?thesis by simp
qed

subsection \<open>Reference lookup\<close>

lemma push_matching:
  "foldl (\<lambda>result r. if p r then result @ [r] else result) acc rs = acc @ filter p rs"
  by (induction rs arbitrary: acc) auto

lemma push_matching_all:
  "foldl (\<lambda>result docRefs. foldl (\<lambda>result r. if p r then result @ [r] else result) result docRefs)
     acc rss = acc @ filter p (concat rss)"
  by (induction rss arbitrary: acc) (auto simp: push_matching)

text \<open>
  C5. \<^verbatim>\<open>findAllReferences(targetNode, path)\<close> returns the stored reference descriptions
  whose target uri is the uri of the document owning the node and whose target path is
  \<^verbatim>\<open>path\<close>, all of them and no other, in the order of the reference index: entry after
  entry, and inside an entry in the order of its list.
\<close>

theorem findAllReferences_exact:
  "findAllReferences getDocument this targetNode astNodePath =
     filter (\<lambda>r. targetUri r = uri (getDocument targetNode) \<and> targetPath r = astNodePath)
       (concat (map snd (referenceIndex this)))"
  by (simp add: findAllReferences_def Let_def push_matching_all equalURI_def Map_values_def)

theorem findAllReferences_exact_witness:
  "findAllReferences (\<lambda>n. docA) manager1 (1::nat) ''/statements@0'' = [refBA] \<and>
   findAllReferences (\<lambda>n. docA) manager1 (1::nat) ''/statements@1'' = [] \<and>
   findAllReferences (\<lambda>n. docB) manager1 (1::nat) ''/statements@0'' = []"
  using findAllReferences_exact [of "\<lambda>n. docA" manager1 1 "''/statements@0''"]
    findAllReferences_exact [of "\<lambda>n. docA" manager1 1 "''/statements@1''"]
    findAllReferences_exact [of "\<lambda>n. docB" manager1 1 "''/statements@0''"]
  by (simp add: manager1_fields refBA_def docA_def docB_def uriA_def uriB_def)

subsection \<open>Affected documents\<close>

lemma isAffected_loop_iff: "isAffected_loop this e us \<longleftrightarrow> (\<exists>u\<in>set us. isAffected this e u)"
  by (induction us) auto

lemma isAffected_iff:
  "isAffected this d u \<longleftrightarrow>
     (\<exists>r\<in>set (references d). error r \<noteq> None) \<or>
     (case Map_get (referenceIndex this) (uri d) of
        None \<Rightarrow> False
      | Some refs \<Rightarrow> \<exists>r\<in>set refs. \<not> local r \<and> targetUri r = u)"
  by (auto simp: isAffected_def Let_def some_iff equalURI_def split: option.splits)

lemma affected_filter_iff:
  "(if some (\<lambda>u. equalURI (uri d) u) uris then False else isAffected_loop this d uris) \<longleftrightarrow>
   uris \<noteq> [] \<and> affected_as_specified this uris d"
proof (cases "uris = []")
  case True
  then show ?thesis by simp
next
  case False
  then obtain u where "u \<in> set uris" by (cases uris) auto
  then show ?thesis
    using False
    by (auto simp: some_iff equalURI_def isAffected_loop_iff isAffected_iff
        affected_as_specified_def split: option.splits)
qed

text \<open>
  C4, as amended. \<^verbatim>\<open>getAffectedDocuments(changedIds)\<close> returns, in the order of the
  document collection, the documents that are affected in the words of the specification
  (id not among the changed ids, and a recorded reference error or a non-local reference
  to a changed id), provided the list of changed ids is not empty; for the empty list it
  returns no document.
\<close>

theorem getAffectedDocuments_exact:
  "getAffectedDocuments this uris =
     filter (\<lambda>d. uris \<noteq> [] \<and> affected_as_specified this uris d) (langiumDocuments_all this)"
  unfolding getAffectedDocuments_def by (rule filter_cong) (simp_all add: affected_filter_iff)

theorem getAffectedDocuments_exact_witness:
  "[uriA] \<noteq> [] \<and> getAffectedDocuments manager1 [uriA] = [docB, docC] \<and>
   getAffectedDocuments manager1 [uriA, uriB] = [docC] \<and>
   getAffectedDocuments manager1 [] = []"
  using getAffectedDocuments_exact [of manager1 "[uriA]"]
    getAffectedDocuments_exact [of manager1 "[uriA, uriB]"]
    getAffectedDocuments_exact [of manager1 "[]"]
  by (simp add: affected_as_specified_def manager1_fields docA_def docB_def docC_def Map_get_def
      refBA_def uriA_def uriB_def uriC_def)

text \<open>
  C4, as stated, fails for the empty list of changed ids: document C carries a reference
  error and its id is not among the changed ids, yet it is not returned, since the loop
  over the changed ids has nothing to run on.
\<close>

theorem getAffectedDocuments_empty_counterexample:
  "getAffectedDocuments manager1 [] \<noteq>
     filter (affected_as_specified manager1 []) (langiumDocuments_all manager1) \<and>
   getAffectedDocuments manager1 [] = [] \<and>
   filter (affected_as_specified manager1 []) (langiumDocuments_all manager1) = [docC]"
  by (simp add: getAffectedDocuments_def affected_as_specified_def manager1_fields docA_def
      docB_def docC_def Map_get_def uriA_def uriB_def uriC_def refBA_def)

subsection \<open>The global scope\<close>

lemma globalScope_hit:
  "Map_get (globalScopeCache this) (case nodeType of None \<Rightarrow> [] | Some t \<Rightarrow> t) = Some cached \<Longrightarrow>
   fst (globalScope this nodeType scopeOptions) = cached \<and>
   snd (snd (globalScope this nodeType scopeOptions)) = []"
  by (simp add: globalScope_def Let_def)

lemma globalScope_miss:
  "Map_get (globalScopeCache this) (case nodeType of None \<Rightarrow> [] | Some t \<Rightarrow> t) = None \<Longrightarrow>
   fst (globalScope this nodeType scopeOptions) =
     MapScope (filter (\<lambda>e. isSubtype this (type e) (case nodeType of None \<Rightarrow> [] | Some t \<Rightarrow> t))
       (if allElementsCache this = [] then flat (Map_values (simpleIndex this))
        else allElementsCache this))
       None scopeOptions"
  by (simp add: globalScope_def Let_def)

lemma globalScope_caches:
  "Map_get (globalScopeCache (fst (snd (globalScope this nodeType scopeOptions))))
     (case nodeType of None \<Rightarrow> [] | Some t \<Rightarrow> t) = Some (fst (globalScope this nodeType scopeOptions))"
  by (simp add: globalScope_def Let_def Map_get_set split: option.splits)

lemma globalScope_after_invalidation:
  "globalScopeCache this = [] \<Longrightarrow> allElementsCache this = [] \<Longrightarrow>
   fst (globalScope this nodeType scopeOptions) =
     MapScope (filter (\<lambda>e. isSubtype this (type e) (case nodeType of None \<Rightarrow> [] | Some t \<Rightarrow> t))
       (flat (Map_values (simpleIndex this)))) None scopeOptions"
  by (simp add: globalScope_miss Map_get_def)

lemma globalScope_keeps_other_keys:
  "k \<noteq> (case nodeType of None \<Rightarrow> [] | Some t \<Rightarrow> t) \<Longrightarrow>
   Map_get (globalScopeCache (fst (snd (globalScope this nodeType scopeOptions)))) k =
     Map_get (globalScopeCache this) k"
  by (simp add: globalScope_def Let_def Map_get_set split: option.splits)

lemma globalScope_repeated:
  assumes "globalScope this nodeType scopeOptions = (scope1, this1, calls1)"
  shows "globalScope this1 nodeType scopeOptions = (scope1, this1, [])"
  using assms
  by (auto simp: globalScope_def Let_def Map_get_set split: option.splits if_splits)

lemma globalScope_keeps_entry:
  "Map_get (globalScopeCache this) k = Some cached \<Longrightarrow>
   Map_get (globalScopeCache (fst (snd (globalScope this nodeType scopeOptions)))) k = Some cached"
  by (auto simp: globalScope_def Let_def Map_get_set split: option.splits)

lemma updateReferences_keeps_caches:
  "globalScopeCache (fst (snd (updateReferences this document cancelToken))) = globalScopeCache this \<and>
   allElementsCache (fst (snd (updateReferences this document cancelToken))) = allElementsCache this \<and>
   simpleIndex (fst (snd (updateReferences this document cancelToken))) = simpleIndex this"
  by (simp add: updateReferences_def Let_def split: sum.splits)

lemma run_keeps_entry:
  "\<not> clears_caches op \<Longrightarrow> Map_get (globalScopeCache this) k = Some cached \<Longrightarrow>
   Map_get (globalScopeCache (run this op)) k = Some cached"
  by (cases op) (simp_all add: globalScope_keeps_entry updateReferences_keeps_caches)

lemma run_all_keeps_entry:
  "\<forall>op\<in>set ops. \<not> clears_caches op \<Longrightarrow> Map_get (globalScopeCache this) k = Some cached \<Longrightarrow>
   Map_get (globalScopeCache (run_all this ops)) k = Some cached"
  unfolding run_all_def
  by (induction ops arbitrary: this) (simp_all add: run_keeps_entry)

lemma run_keeps_simpleIndex:
  "\<not> clears_caches op \<Longrightarrow> simpleIndex (run this op) = simpleIndex this"
  by (cases op) (simp_all add: updateReferences_keeps_caches globalScope_def Let_def split: option.splits)

text \<open>
  C6, as amended. After a call \<^verbatim>\<open>globalScope(T)\<close>, and after any calls none of which clears
  the caches (no \<^verbatim>\<open>updateContent\<close>, no \<^verbatim>\<open>remove\<close> of a non-empty list), the call
  \<^verbatim>\<open>globalScope(T)\<close> returns the same scope and calls the subtype predicate not once.
  Such calls leave the symbol index as it was.
\<close>

theorem globalScope_again_without_cache_clearing:
  assumes "globalScope this nodeType scopeOptions = (scope1, this1, calls1)"
    and "\<forall>op\<in>set ops. \<not> clears_caches op"
  shows "fst (globalScope (run_all this1 ops) nodeType scopeOptions) = scope1 \<and>
    snd (snd (globalScope (run_all this1 ops) nodeType scopeOptions)) = [] \<and>
    simpleIndex (run_all this1 ops) = simpleIndex this"
proof -
  have "Map_get (globalScopeCache this1) (case nodeType of None \<Rightarrow> [] | Some t \<Rightarrow> t) = Some scope1"
    using globalScope_caches [of this nodeType scopeOptions] assms(1) by simp
  then have "Map_get (globalScopeCache (run_all this1 ops)) (case nodeType of None \<Rightarrow> [] | Some t \<Rightarrow> t) = Some scope1"
    using assms(2) by (rule run_all_keeps_entry [rotated])
  then have hit: "fst (globalScope (run_all this1 ops) nodeType scopeOptions) = scope1 \<and>
    snd (snd (globalScope (run_all this1 ops) nodeType scopeOptions)) = []"
    by (rule globalScope_hit)
  have "simpleIndex (run_all this1 ops) = simpleIndex this1"
    using assms(2) unfolding run_all_def
    by (induction ops arbitrary: this1) (simp_all add: run_keeps_simpleIndex)
  moreover have "simpleIndex this1 = simpleIndex this"
    using assms(1) by (auto simp: globalScope_def Let_def split: option.splits if_splits)
  ultimately show ?thesis using hit by simp
qed


theorem globalScope_again_without_cache_clearing_witness:
  "\<not> clears_caches (UpdateReferences docB_edited None :: nat operation) \<and>
   \<not> clears_caches (Remove [] :: nat operation) \<and>
   globalScope manager1 (Some ''Definition'') None =
     (MapScope [symX\<lparr>node := None\<rparr>] None None, manager2, [(''Definition'', ''Definition'')]) \<and>
   fst (globalScope (run_all manager2 quiet_calls) (Some ''Definition'') None) =
     MapScope [symX\<lparr>node := None\<rparr>] None None \<and>
   snd (snd (globalScope (run_all manager2 quiet_calls) (Some ''Definition'') None)) = []"
proof -
  have first: "globalScope manager1 (Some ''Definition'') None =
     (MapScope [symX\<lparr>node := None\<rparr>] None None, manager2, [(''Definition'', ''Definition'')])"
    unfolding manager2_def
    by (simp add: globalScope_def Let_def manager1_fields Map_get_def Map_values_def flat_def
        scenario_isSubtype_def symX_def)
  have quiet: "\<forall>op\<in>set quiet_calls. \<not> clears_caches op"
    by (simp add: quiet_calls_def)
  from globalScope_again_without_cache_clearing [OF first quiet] first
  show ?thesis by simp
qed

text \<open>
  C6, as stated, fails: a cancelled \<^verbatim>\<open>updateContent\<close>, or a \<^verbatim>\<open>remove\<close> of a uri that has
  no entry, between the two calls leaves the symbol index as it was and clears the caches
  all the same, and the second \<^verbatim>\<open>globalScope('Definition')\<close> calls the subtype predicate
  again.
\<close>

theorem globalScope_twice_counterexample:
  "globalScope manager1 (Some ''Definition'') None =
     (MapScope [symX\<lparr>node := None\<rparr>] None None, manager2, [(''Definition'', ''Definition'')]) \<and>
   fst (updateContent manager2 docA (Some cancelled)) = Inl OperationCancelled \<and>
   simpleIndex (run manager2 (UpdateContent docA (Some cancelled))) = simpleIndex manager2 \<and>
   snd (snd (globalScope (run manager2 (UpdateContent docA (Some cancelled)))
      (Some ''Definition'') None)) = [(''Definition'', ''Definition'')] \<and>
   simpleIndex (run manager2 (Remove [uriC])) = simpleIndex manager2 \<and>
   snd (snd (globalScope (run manager2 (Remove [uriC]))
      (Some ''Definition'') None)) = [(''Definition'', ''Definition'')]"
proof -
  have first: "globalScope manager1 (Some ''Definition'') None =
     (MapScope [symX\<lparr>node := None\<rparr>] None None, manager2, [(''Definition'', ''Definition'')])"
    unfolding manager2_def
    by (simp add: globalScope_def Let_def manager1_fields Map_get_def Map_values_def flat_def
        scenario_isSubtype_def symX_def)
  have raised: "computeExports (getServices manager2 (uri docA)) docA
      (token_or_default (Some cancelled)) = Inl OperationCancelled"
    by (simp add: manager2_fields scenario_services_def token_or_default_def cancelled_def)
  have update: "updateContent manager2 docA (Some cancelled) =
      (Inl OperationCancelled, manager2\<lparr>globalScopeCache := [], allElementsCache := []\<rparr>, docA)"
    by (rule updateContent_raised [OF raised])
  have removal: "remove manager2 [uriC] = manager2\<lparr>globalScopeCache := [], allElementsCache := []\<rparr>"
    by (simp add: remove_uri_def manager2_fields Map_clear_def uriA_def uriB_def uriC_def)
  have again: "snd (snd (globalScope (manager2\<lparr>globalScopeCache := [], allElementsCache := []\<rparr>)
      (Some ''Definition'') None)) = [(''Definition'', ''Definition'')]"
    by (simp add: globalScope_def Let_def manager2_fields Map_get_def Map_values_def flat_def
        symX_def)
  show ?thesis using first update removal again by simp
qed

text \<open>
  C7, as amended. The cache is keyed by the type filter alone: \<^verbatim>\<open>globalScope(T, o2)\<close>,
  after \<^verbatim>\<open>globalScope(T, o1)\<close> and any calls none of which clears the caches, returns the
  scope the first call returned, whatever \<open>o2\<close> is. When the first call found no scope
  cached for \<open>T\<close>, that scope is the one constructed with \<open>o1\<close>; when it found one, both
  calls return it, and \<open>o1\<close> is ignored as well.
\<close>

theorem globalScope_options_of_first_construction:
  assumes "\<forall>op\<in>set ops. \<not> clears_caches op"
  shows
    "fst (globalScope (run_all (fst (snd (globalScope this nodeType options1))) ops)
        nodeType options2) = fst (globalScope this nodeType options1) \<and>
     (Map_get (globalScopeCache this) (case nodeType of None \<Rightarrow> [] | Some t \<Rightarrow> t) = None \<longrightarrow>
        fst (globalScope (run_all (fst (snd (globalScope this nodeType options1))) ops)
          nodeType options2) =
          MapScope
            (filter (\<lambda>e. isSubtype this (type e) (case nodeType of None \<Rightarrow> [] | Some t \<Rightarrow> t))
              (if allElementsCache this = [] then flat (Map_values (simpleIndex this))
               else allElementsCache this))
            None options1) \<and>
     (\<forall>cached.
        Map_get (globalScopeCache this) (case nodeType of None \<Rightarrow> [] | Some t \<Rightarrow> t) = Some cached \<longrightarrow>
        fst (globalScope (run_all (fst (snd (globalScope this nodeType options1))) ops)
          nodeType options2) = cached)"
proof -
  have "Map_get (globalScopeCache (run_all (fst (snd (globalScope this nodeType options1))) ops))
      (case nodeType of None \<Rightarrow> [] | Some t \<Rightarrow> t) = Some (fst (globalScope this nodeType options1))"
    using assms globalScope_caches by (rule run_all_keeps_entry)
  then have "fst (globalScope (run_all (fst (snd (globalScope this nodeType options1))) ops)
        nodeType options2) = fst (globalScope this nodeType options1)"
    using globalScope_hit by blast
  then show ?thesis
    by (auto simp: globalScope_miss dest: globalScope_hit)
qed

theorem globalScope_options_of_first_construction_witness:
  "Map_get (globalScopeCache manager1) ''Definition'' = None \<and>
   fst (globalScope
      (run_all (fst (snd (globalScope manager1 (Some ''Definition'') (Some caseInsensitive_options))))
         quiet_calls)
      (Some ''Definition'') None) =
     MapScope [symX\<lparr>node := None\<rparr>] None (Some caseInsensitive_options) \<and>
   Map_get (globalScopeCache manager2) ''Definition'' = Some (MapScope [symX\<lparr>node := None\<rparr>] None None) \<and>
   fst (globalScope
      (run_all (fst (snd (globalScope manager2 (Some ''Definition'') (Some caseInsensitive_options))))
         quiet_calls)
      (Some ''Definition'') (Some caseInsensitive_options)) =
     MapScope [symX\<lparr>node := None\<rparr>] None None"
proof -
  have quiet: "\<forall>op\<in>set quiet_calls. \<not> clears_caches op"
    by (simp add: quiet_calls_def)
  have miss: "Map_get (globalScopeCache manager1) ''Definition'' = None"
    by (simp add: manager1_fields Map_get_def)
  have hit: "Map_get (globalScopeCache manager2) ''Definition'' =
      Some (MapScope [symX\<lparr>node := None\<rparr>] None None)"
    by (simp add: manager2_fields Map_get_def)
  have elems: "filter (\<lambda>e. isSubtype manager1 (type e) ''Definition'')
      (flat (Map_values (simpleIndex manager1))) = [symX\<lparr>node := None\<rparr>]"
    by (simp add: manager1_fields Map_values_def flat_def scenario_isSubtype_def symX_def)
  have kept: "fst (globalScope
      (run_all (fst (snd (globalScope manager1 (Some ''Definition'') (Some caseInsensitive_options))))
         quiet_calls)
      (Some ''Definition'') None) =
     MapScope [symX\<lparr>node := None\<rparr>] None (Some caseInsensitive_options)"
    using globalScope_options_of_first_construction [OF quiet, of manager1 "Some ''Definition''"
        "Some caseInsensitive_options" None, THEN conjunct2, THEN conjunct1] miss elems
    by (simp add: manager1_fields)
  have ignored: "fst (globalScope
      (run_all (fst (snd (globalScope manager2 (Some ''Definition'') (Some caseInsensitive_options))))
         quiet_calls)
      (Some ''Definition'') (Some caseInsensitive_options)) =
     MapScope [symX\<lparr>node := None\<rparr>] None None"
    using globalScope_options_of_first_construction [OF quiet, of manager2 "Some ''Definition''"
        "Some caseInsensitive_options" "Some caseInsensitive_options", THEN conjunct2,
        THEN conjunct2] hit
    by simp
  show ?thesis using miss hit kept ignored by simp
qed

text \<open>
  C7, as stated, fails. With a scope already cached for the filter, the first call
  ignores its options too: both calls are given the case-insensitive options and return
  the scope constructed with none. And with a cancelled \<^verbatim>\<open>updateContent\<close> between the
  calls, which leaves the symbol index as it was, the second call constructs a new scope
  with its own options.
\<close>

theorem globalScope_options_counterexample:
  "Map_get (globalScopeCache manager2) ''Definition'' = Some (MapScope [symX\<lparr>node := None\<rparr>] None None) \<and>
   options (fst (globalScope
      (fst (snd (globalScope manager2 (Some ''Definition'') (Some caseInsensitive_options))))
      (Some ''Definition'') (Some caseInsensitive_options))) = None \<and>
   simpleIndex (run manager2 (UpdateContent docA (Some cancelled))) = simpleIndex manager2 \<and>
   options (fst (globalScope
      (run (fst (snd (globalScope manager1 (Some ''Definition'') (Some caseInsensitive_options))))
         (UpdateContent docA (Some cancelled)))
      (Some ''Definition'') None)) = None \<and>
   Some caseInsensitive_options \<noteq> None"
proof -
  have hit: "Map_get (globalScopeCache manager2) ''Definition'' =
      Some (MapScope [symX\<lparr>node := None\<rparr>] None None)"
    by (simp add: manager2_fields Map_get_def)
  have a: "options (fst (globalScope
      (fst (snd (globalScope manager2 (Some ''Definition'') (Some caseInsensitive_options))))
      (Some ''Definition'') (Some caseInsensitive_options))) = None"
    by (simp add: globalScope_def Let_def manager2_fields Map_get_def)
  have raised: "computeExports (getServices this (uri docA)) docA
      (token_or_default (Some cancelled)) = Inl OperationCancelled"
    if "getServices this = (\<lambda>u. scenario_services)" for this :: "nat DefaultIndexManager"
    using that by (simp add: scenario_services_def token_or_default_def cancelled_def)
  have b: "simpleIndex (run manager2 (UpdateContent docA (Some cancelled))) = simpleIndex manager2"
    by (simp add: updateContent_raised [OF raised] manager2_fields)
  have c: "options (fst (globalScope
      (run (fst (snd (globalScope manager1 (Some ''Definition'') (Some caseInsensitive_options))))
         (UpdateContent docA (Some cancelled)))
      (Some ''Definition'') None)) = None"
  proof -
    have s: "getServices (fst (snd (globalScope manager1 (Some ''Definition'')
        (Some caseInsensitive_options)))) = (\<lambda>u. scenario_services)"
      by (simp add: globalScope_def Let_def manager1_fields Map_get_def)
    show ?thesis
      by (simp add: updateContent_raised [OF raised [OF s]])
        (simp add: globalScope_def Let_def manager1_fields Map_get_def)
  qed
  show ?thesis using hit a b c by simp
qed

text \<open>
  C1, at a failing input. In the scenario the symbol index holds the description of
  \<open>x\<close>, of type \<^verbatim>\<open>Definition\<close>. Called with no type filter, \<^verbatim>\<open>globalScope()\<close> filters
  with the default \<^verbatim>\<open>''\<close> all the same, and the scope it returns is empty.
\<close>

theorem globalScope_without_filter_is_empty:
  "flat (Map_values (simpleIndex manager1)) = [symX\<lparr>node := None\<rparr>] \<and>
   fst (globalScope manager1 None None) = MapScope [] None None"
  by (simp add: globalScope_def Let_def manager1_fields Map_get_def Map_values_def flat_def
      scenario_isSubtype_def symX_def)

subsection \<open>Invalidation\<close>

lemma updateContent_run_to_completion_invalidates:
  assumes "computeExports (getServices this (uri document)) document (token_or_default cancelToken) = Inr exports"
  shows "globalScopeCache (fst (snd (updateContent this document cancelToken))) = [] \<and>
    allElementsCache (fst (snd (updateContent this document cancelToken))) = []"
  using assms by (simp add: updateContent_returned)

lemma cache_coherent_new: "cache_coherent (new_DefaultIndexManager registry docs reflection)"
  by (simp add: cache_coherent_def new_DefaultIndexManager_def)

lemma cache_coherent_remove: "cache_coherent this \<Longrightarrow> cache_coherent (remove this us)"
proof (induction us arbitrary: this)
  case Nil
  then show ?case by simp
next
  case (Cons u us)
  have "cache_coherent (remove_uri this u)"
    by (simp add: cache_coherent_def remove_uri_def Map_clear_def)
  then show ?case using Cons.IH by simp
qed

lemma cache_coherent_updateContent:
  "cache_coherent (fst (snd (updateContent this document cancelToken)))"
  by (cases "computeExports (getServices this (uri document)) document (token_or_default cancelToken)")
    (simp_all add: updateContent_raised updateContent_returned cache_coherent_def)

lemma cache_coherent_updateReferences:
  "cache_coherent this \<Longrightarrow> cache_coherent (fst (snd (updateReferences this document cancelToken)))"
  by (cases "createDescriptions (getServices this (uri document)) document (token_or_default cancelToken)")
    (simp_all add: updateReferences_raised updateReferences_returned cache_coherent_def)

lemma cache_coherent_globalScope:
  assumes "cache_coherent this"
  shows "cache_coherent (fst (snd (globalScope this nodeType scopeOptions)))"
proof (cases "Map_get (globalScopeCache this) (case nodeType of None \<Rightarrow> [] | Some t \<Rightarrow> t)")
  case None
  then show ?thesis
    using assms set_Map_set [of "case nodeType of None \<Rightarrow> [] | Some t \<Rightarrow> t" _ "globalScopeCache this"]
    by (fastforce simp: cache_coherent_def globalScope_def Let_def)
next
  case (Some cached)
  then show ?thesis
    using assms by (auto simp: cache_coherent_def globalScope_def Let_def)
qed

lemma cache_coherent_globalScope_filters:
  assumes "cache_coherent this"
  shows "elements (fst (globalScope this nodeType scopeOptions)) =
    filter (\<lambda>e. isSubtype this (type e) (case nodeType of None \<Rightarrow> [] | Some t \<Rightarrow> t))
      (flat (Map_values (simpleIndex this)))"
proof (cases "Map_get (globalScopeCache this) (case nodeType of None \<Rightarrow> [] | Some t \<Rightarrow> t)")
  case None
  then show ?thesis
    using assms by (auto simp: cache_coherent_def globalScope_miss)
next
  case (Some cached)
  then show ?thesis
    using assms Map_get_in [OF Some] globalScope_hit [OF Some, of scopeOptions]
    by (auto simp: cache_coherent_def)
qed

lemma manager3_fields:
  "simpleIndex manager3 = [(uriA, [symX2\<lparr>node := None\<rparr>]), (uriB, [])]"
  "globalScopeCache manager3 = [(''Definition'', MapScope [symX\<lparr>node := None\<rparr>] None None)]"
  "allElementsCache manager3 = [symX\<lparr>node := None\<rparr>]"
  "isSubtype manager3 = scenario_isSubtype"
  by (simp_all add: manager3_def updateContent_interleaved_def Let_def updateContent_begin_def
      updateContent_commit_def globalScope_def manager2_fields scenario_services_def
      token_or_default_def CancellationToken_None_def Map_clear_def Map_get_def Map_values_def
      flat_def scenario_isSubtype_def symX_def docA_def docA_edited_def)

lemma manager3_not_coherent: "\<not> cache_coherent manager3"
  by (simp add: cache_coherent_def manager3_fields Map_values_def flat_def scenario_isSubtype_def
      symX_def symX2_def)

text \<open>
  C3, at a failing schedule. \<^verbatim>\<open>updateContent\<close> of the edited A clears the two caches
  before it awaits the extractor. A call \<^verbatim>\<open>globalScope('Definition')\<close> that runs during the await fills
  them again from the symbol index as it still is. The update then stores the new
  exports of A and returns: the symbol index holds \<open>x2\<close>, the caches hold \<open>x\<close>, and the
  next \<^verbatim>\<open>globalScope('Definition')\<close> returns the scope built before the mutation.
\<close>

theorem updateContent_interleaved_read_leaves_stale_scope:
  "fst (updateContent_interleaved
          (\<lambda>this1. fst (snd (globalScope this1 (Some ''Definition'') None)))
          manager2 docA_edited None) = Inr () \<and>
   flat (Map_values (simpleIndex manager3)) = [symX2\<lparr>node := None\<rparr>] \<and>
   globalScopeCache manager3 = [(''Definition'', MapScope [symX\<lparr>node := None\<rparr>] None None)] \<and>
   allElementsCache manager3 = [symX\<lparr>node := None\<rparr>] \<and>
   fst (globalScope manager3 (Some ''Definition'') None) = MapScope [symX\<lparr>node := None\<rparr>] None None"
proof -
  have "fst (updateContent_interleaved
          (\<lambda>this1. fst (snd (globalScope this1 (Some ''Definition'') None)))
          manager2 docA_edited None) = Inr ()"
    by (simp add: updateContent_interleaved_def Let_def manager2_fields scenario_services_def
        token_or_default_def CancellationToken_None_def docA_def docA_edited_def
        updateContent_begin_def updateContent_commit_def)
  moreover have "fst (globalScope manager3 (Some ''Definition'') None) =
      MapScope [symX\<lparr>node := None\<rparr>] None None"
    by (simp add: globalScope_def Let_def manager3_fields Map_get_def)
  ultimately show ?thesis
    by (simp add: manager3_fields Map_values_def flat_def)
qed

end
